theory Spec2Isabelle
  imports Complex_Main "HOL-Library.Char_ord" "HOL-Library.List_Lexorder"
begin

section \<open>NIRCam grism reference-file tools: a shallow embedding\<close>

text \<open>
  The development follows \<^verbatim>\<open>jwreftools/nircam/nircam_grism_reffiles.py\<close>.
  Python values, dictionaries and exceptions are made explicit:
  \<^item> a dictionary is an association list in insertion order (Python dictionaries iterate
    in insertion order; assigning to an existing key keeps its position);
  \<^item> an exception is the \<open>Inl\<close> branch of a sum, and a loop stops at the first one;
  \<^item> text is ASCII: the letter, digit and whitespace classes of the regular expressions
    are the ASCII ones, and \<open>upper\<close> changes the ASCII letters only;
  \<^item> Python floats are idealised as exact rationals.
\<close>

subsection \<open>Exceptions and values\<close>

datatype error =
    ValueError string
  | SyntaxError
  | NameError
  | UnboundLocalError string
  | KeyError string
  | IndexError
  | TypeError
  | ZeroDivisionError
  | FileNotFoundError string

datatype pyval =
    PInt int
  | PFloat rat
  | PStr string
  | PTuple pyval pyval

type_synonym 'v dict = "(string \<times> 'v) list"

definition bind :: "error + 'a \<Rightarrow> ('a \<Rightarrow> error + 'b) \<Rightarrow> error + 'b" where
  "bind m f = (case m of Inl e \<Rightarrow> Inl e | Inr x \<Rightarrow> f x)"

text \<open>A \<^verbatim>\<open>for\<close> loop over a list that threads a state and stops at the first exception.\<close>

fun for_each :: "('a \<Rightarrow> 's \<Rightarrow> error + 's) \<Rightarrow> 'a list \<Rightarrow> 's \<Rightarrow> error + 's" where
  "for_each f [] s = Inr s"
| "for_each f (x # xs) s = (case f x s of Inl e \<Rightarrow> Inl e | Inr s' \<Rightarrow> for_each f xs s')"

subsection \<open>Dictionaries\<close>

text \<open>\<^verbatim>\<open>d[k] = v\<close>\<close>

fun dict_set :: "'v dict \<Rightarrow> string \<Rightarrow> 'v \<Rightarrow> 'v dict" where
  "dict_set [] k v = [(k, v)]"
| "dict_set ((k', v') # d) k v =
     (if k' = k then (k, v) # d else (k', v') # dict_set d k v)"

text \<open>\<^verbatim>\<open>d[k]\<close>\<close>

definition dict_get :: "'v dict \<Rightarrow> string \<Rightarrow> error + 'v" where
  "dict_get d k = (case map_of d k of None \<Rightarrow> Inl (KeyError k) | Some v \<Rightarrow> Inr v)"

text \<open>\<^verbatim>\<open>del d[k]\<close>\<close>

definition dict_del :: "'v dict \<Rightarrow> string \<Rightarrow> error + 'v dict" where
  "dict_del d k =
     (if k \<in> set (map fst d) then Inr (filter (\<lambda>kv. fst kv \<noteq> k) d) else Inl (KeyError k))"

text \<open>\<^verbatim>\<open>d.update(other)\<close>\<close>

definition dict_update :: "'v dict \<Rightarrow> 'v dict \<Rightarrow> 'v dict" where
  "dict_update d other = fold (\<lambda>kv acc. dict_set acc (fst kv) (snd kv)) other d"

subsection \<open>Characters and strings\<close>

definition is_letter :: "char \<Rightarrow> bool" where
  "is_letter c = (let n = (of_char c :: nat) in (65 \<le> n \<and> n \<le> 90) \<or> (97 \<le> n \<and> n \<le> 122))"

definition is_digit :: "char \<Rightarrow> bool" where
  "is_digit c = (let n = (of_char c :: nat) in 48 \<le> n \<and> n \<le> 57)"

text \<open>The class \<^verbatim>\<open>\s\<close>, which is also what \<^verbatim>\<open>str.strip()\<close> removes.\<close>

definition is_space :: "char \<Rightarrow> bool" where
  "is_space c = (let n = (of_char c :: nat) in (9 \<le> n \<and> n \<le> 13) \<or> (28 \<le> n \<and> n \<le> 32))"

definition upper_char :: "char \<Rightarrow> char" where
  "upper_char c =
     (let n = (of_char c :: nat) in if 97 \<le> n \<and> n \<le> 122 then char_of (n - 32) else c)"

definition upper :: "string \<Rightarrow> string" where
  "upper s = map upper_char s"

text \<open>\<^verbatim>\<open>s.split(sep)\<close> for a one-character separator.\<close>

fun split :: "char \<Rightarrow> string \<Rightarrow> string list" where
  "split sep [] = [[]]"
| "split sep (c # cs) =
     (if c = sep then [] # split sep cs
      else (case split sep cs of [] \<Rightarrow> [[c]] | p # ps \<Rightarrow> (c # p) # ps))"

text \<open>\<^verbatim>\<open>sub in s\<close>\<close>

fun contains :: "string \<Rightarrow> string \<Rightarrow> bool" where
  "contains sub [] = (sub = [])"
| "contains sub (c # cs) = (take (length sub) (c # cs) = sub \<or> contains sub cs)"

text \<open>
  \<^verbatim>\<open>s.replace(old, "")\<close>: every occurrence of \<open>old\<close>, found from the left without
  overlap, is removed. The source only calls it with an \<open>old\<close> that starts with an
  underscore; an empty \<open>old\<close> leaves the string as it is.
\<close>

function replace_empty :: "string \<Rightarrow> string \<Rightarrow> string" where
  "replace_empty old [] = []"
| "replace_empty old (c # cs) =
     (if old \<noteq> [] \<and> take (length old) (c # cs) = old
      then replace_empty old (drop (length old) (c # cs))
      else c # replace_empty old cs)"
  by pat_completeness auto
termination
  by (relation "measure (\<lambda>(old, s). length s)") (auto simp: neq_Nil_conv)

subsection \<open>The beam splitter\<close>

text \<open>
  \<^verbatim>\<open>token = re.compile('^[a-zA-Z]*_(?:[+\-]){0,1}[a-zA-Z0-9]{0,1}_*')\<close>, used with
  \<^verbatim>\<open>match\<close>: everything after the first underscore is optional, so a key matches
  exactly when its leading letters are followed by an underscore.
\<close>

definition token_match :: "string \<Rightarrow> bool" where
  "token_match key = (case dropWhile is_letter key of [] \<Rightarrow> False | c # _ \<Rightarrow> c = CHR ''_'')"

text \<open>
  \<^verbatim>\<open>rangekey = re.compile('^[a-zA-Z]*_[0-1]{1,1}$')\<close>, used with \<^verbatim>\<open>match\<close>: letters, an
  underscore, one of the digits 0 and 1, and then the end of the string or a final newline
  (which \<^verbatim>\<open>$\<close> accepts).
\<close>

definition rangekey_match :: "string \<Rightarrow> bool" where
  "rangekey_match k =
     (case dropWhile is_letter k of
        [u, d] \<Rightarrow> u = CHR ''_'' \<and> (d = CHR ''0'' \<or> d = CHR ''1'')
      | [u, d, n] \<Rightarrow> u = CHR ''_'' \<and> (d = CHR ''0'' \<or> d = CHR ''1'') \<and> n = CHR 0x0A
      | _ \<Rightarrow> False)"

text \<open>\<^verbatim>\<open>key.split("_")[1].upper()\<close>\<close>

definition beam_of :: "string \<Rightarrow> error + string" where
  "beam_of key = (case split (CHR ''_'') key of _ # b # _ \<Rightarrow> Inr (upper b) | _ \<Rightarrow> Inl IndexError)"

text \<open>\<^verbatim>\<open>k.split("_")[0]\<close>\<close>

definition root_of :: "string \<Rightarrow> error + string" where
  "root_of k = (case split (CHR ''_'') k of r # _ \<Rightarrow> Inr r | [] \<Rightarrow> Inl IndexError)"

text \<open>
  \<^verbatim>\<open>eval(mk[-1])\<close>: the last character of the key, evaluated as a Python expression. A
  digit is its number, a letter or an underscore is an undefined name, and anything else
  (a newline among them) is not an expression.
\<close>

definition eval_last :: "string \<Rightarrow> error + int" where
  "eval_last mk =
     (if mk = [] then Inl IndexError
      else let c = last mk in
        if is_digit c then Inr (int (of_char c) - 48)
        else if is_letter c \<or> c = CHR ''_'' then Inl NameError
        else Inl SyntaxError)"

text \<open>The first loop: the beams in the order in which the keys first name them.\<close>

definition prefetch_step :: "string \<Rightarrow> string list \<Rightarrow> error + string list" where
  "prefetch_step key beams =
     (if token_match key
      then bind (beam_of key) (\<lambda>b. Inr (if b \<in> set beams then beams else beams @ [b]))
      else Inr beams)"

text \<open>The second loop: each beam-qualified key goes to its beam, the beam token removed.\<close>

definition assign_step :: "pyval dict \<Rightarrow> string \<Rightarrow> pyval dict dict \<Rightarrow> error + pyval dict dict" where
  "assign_step keydict key rdict =
     (if token_match key
      then bind (beam_of key) (\<lambda>b.
           let newkey = replace_empty (CHR ''_'' # b) key in
           bind (dict_get keydict key) (\<lambda>v.
           bind (dict_get rdict b) (\<lambda>d.
           Inr (dict_set rdict b (dict_set d newkey v)))))
      else Inr rdict)"

text \<open>
  The local variables \<^verbatim>\<open>zero\<close> and \<^verbatim>\<open>one\<close> of the third loop. They are never reset:
  they keep their values from one root to the next and from one beam to the next, and
  are unbound until first assigned.
\<close>

record locals =
  zero :: "pyval option"
  one :: "pyval option"

text \<open>The body of \<^verbatim>\<open>for mk in mlist\<close>.\<close>

definition member_step :: "pyval dict \<Rightarrow> string \<Rightarrow> locals \<Rightarrow> error + locals" where
  "member_step d mk vars =
     bind (eval_last mk) (\<lambda>n.
       if n = 0 then bind (dict_get d mk) (\<lambda>v. Inr (vars\<lparr>zero := Some v\<rparr>))
       else if n = 1 then bind (dict_get d mk) (\<lambda>v. Inr (vars\<lparr>one := Some v\<rparr>))
       else Inl (ValueError (''Unexpected range variable '' @ mk)))"

text \<open>\<^verbatim>\<open>odict[root] = (zero, one)\<close>\<close>

definition make_pair :: "locals \<Rightarrow> error + pyval" where
  "make_pair vars =
     (case zero vars of
        None \<Rightarrow> Inl (UnboundLocalError ''zero'')
      | Some z \<Rightarrow>
          (case one vars of
             None \<Rightarrow> Inl (UnboundLocalError ''one'')
           | Some w \<Rightarrow> Inr (PTuple z w)))"

text \<open>The body of \<^verbatim>\<open>for k in rkeys\<close>.\<close>

definition root_step ::
  "pyval dict \<Rightarrow> string list \<Rightarrow> string \<Rightarrow> pyval dict \<times> locals \<Rightarrow> error + pyval dict \<times> locals" where
  "root_step d rkeys k st =
     bind (root_of k) (\<lambda>kroot.
     let mlist = filter (\<lambda>m. contains kroot m) rkeys in
     (case mlist of
        [] \<Rightarrow> Inl IndexError
      | m0 # _ \<Rightarrow>
          bind (root_of m0) (\<lambda>root.
          if root \<notin> set (map fst (fst st))
          then bind (for_each (member_step d) mlist (snd st)) (\<lambda>vars.
               bind (make_pair vars) (\<lambda>p.
               Inr (dict_set (fst st) root p, vars)))
          else Inr st)))"

text \<open>The body of \<^verbatim>\<open>for b, d in rdict.items()\<close>.\<close>

definition beam_step ::
  "string \<Rightarrow> pyval dict dict \<times> locals \<Rightarrow> error + pyval dict dict \<times> locals" where
  "beam_step b st =
     bind (dict_get (fst st) b) (\<lambda>d.
     let rkeys = filter rangekey_match (map fst d) in
     bind (for_each (root_step d rkeys) rkeys ([], snd st)) (\<lambda>res.
     bind (for_each (\<lambda>k acc. dict_del acc k) rkeys (dict_update d (fst res))) (\<lambda>d'.
     Inr (dict_set (fst st) b d', snd res))))"

definition split_order_info :: "pyval dict \<Rightarrow> error + pyval dict dict" where
  "split_order_info keydict =
     bind (for_each prefetch_step (map fst keydict) []) (\<lambda>beams.
     let rdict = map (\<lambda>b. (b, [])) beams in
     bind (for_each (assign_step keydict) (map fst keydict) rdict) (\<lambda>rdict.
     bind (for_each beam_step (map fst rdict) (rdict, \<lparr>zero = None, one = None\<rparr>)) (\<lambda>res.
     Inr (fst res))))"

subsection \<open>Reading the configuration file\<close>

text \<open>\<^verbatim>\<open>letters = re.compile("(^[a-zA-Z])")\<close> with \<^verbatim>\<open>match\<close>: the first character is a letter.\<close>

definition letters_match :: "string \<Rightarrow> bool" where
  "letters_match s = (case s of [] \<Rightarrow> False | c # _ \<Rightarrow> is_letter c)"

text \<open>\<^verbatim>\<open>empty = re.compile("(^\s*$)")\<close> with \<^verbatim>\<open>match\<close>: nothing but whitespace.\<close>

definition empty_match :: "string \<Rightarrow> bool" where
  "empty_match s = list_all is_space s"

text \<open>\<^verbatim>\<open>line.strip()\<close>\<close>

definition strip :: "string \<Rightarrow> string" where
  "strip s = rev (dropWhile is_space (rev (dropWhile is_space s)))"

text \<open>
  \<^verbatim>\<open>re.split(token, s, maxsplit=3)\<close> with \<^verbatim>\<open>token = '\s+|(?<!\d)[,](?!\d)'\<close>. The
  string is scanned from the left; a separator is a maximal run of whitespace, or a comma
  with no digit right before it and none right after it. \<open>n\<close> is the number of splits
  still allowed, \<open>pd\<close> says whether the character before the current position is a
  digit, and \<open>acc\<close> is the current piece, reversed. After the last allowed split the
  rest of the string is the last piece.
\<close>

function re_split :: "nat \<Rightarrow> bool \<Rightarrow> string \<Rightarrow> string \<Rightarrow> string list" where
  "re_split n pd acc [] = [rev acc]"
| "re_split n pd acc (c # cs) =
     (if n = 0 then [rev acc @ c # cs]
      else if is_space c
      then rev acc # re_split (n - 1) False [] (dropWhile is_space cs)
      else if c = CHR '','' \<and> \<not> pd \<and> \<not> (case cs of [] \<Rightarrow> False | d # _ \<Rightarrow> is_digit d)
      then rev acc # re_split (n - 1) False [] cs
      else re_split n (is_digit c) (c # acc) cs)"
  by pat_completeness auto
termination
  by (relation "measure (\<lambda>(n, pd, acc, s). length s)")
     (auto simp: less_Suc_eq_le length_dropWhile_le)

text \<open>
  \<^verbatim>\<open>numbers = re.compile("(^(?:[+\-])?(?:\d*)(?:\.)?(?:\d*)?(?:[eE][+\-]?\d*$)?)")\<close>,
  used with \<^verbatim>\<open>fullmatch\<close>. Every part is optional: a sign, digits, a point, digits,
  and an exponent made of \<open>e\<close> or \<open>E\<close>, a sign and digits. The parts of a string of
  this shape:
\<close>

record literal =
  negative :: bool
  intpart :: string
  point :: bool
  fracpart :: string
  exponent :: "(bool \<times> bool \<times> string) option"

text \<open>The exponent is (has a sign, the sign is minus, the digits).\<close>

definition take_sign :: "string \<Rightarrow> bool \<times> bool \<times> string" where
  "take_sign s =
     (case s of
        [] \<Rightarrow> (False, False, s)
      | c # cs \<Rightarrow>
          if c = CHR ''+'' then (True, False, cs)
          else if c = CHR ''-'' then (True, True, cs)
          else (False, False, s))"

definition parse_exponent :: "string \<Rightarrow> (bool \<times> bool \<times> string) option option" where
  "parse_exponent s =
     (case s of
        [] \<Rightarrow> Some None
      | c # cs \<Rightarrow>
          if c = CHR ''e'' \<or> c = CHR ''E''
          then (case take_sign cs of
                  (signed, isneg, ds) \<Rightarrow>
                    if list_all is_digit ds then Some (Some (signed, isneg, ds)) else None)
          else None)"

definition parse_numbers :: "string \<Rightarrow> literal option" where
  "parse_numbers s =
     (case take_sign s of
        (signed, isneg, s1) \<Rightarrow>
          let ip = takeWhile is_digit s1;
              s2 = dropWhile is_digit s1;
              pt = (case s2 of [] \<Rightarrow> False | c # _ \<Rightarrow> c = CHR ''.'');
              s3 = (if pt then tl s2 else s2);
              fp = takeWhile is_digit s3;
              s4 = dropWhile is_digit s3
          in (case parse_exponent s4 of
                None \<Rightarrow> None
              | Some ex \<Rightarrow>
                  Some \<lparr>negative = isneg, intpart = ip, point = pt, fracpart = fp,
                        exponent = ex\<rparr>))"

definition numbers_fullmatch :: "string \<Rightarrow> bool" where
  "numbers_fullmatch s = (parse_numbers s \<noteq> None)"

definition digits_value :: "string \<Rightarrow> nat" where
  "digits_value ds = foldl (\<lambda>a c. 10 * a + (of_char c - 48)) 0 ds"

definition float_value :: "literal \<Rightarrow> string \<Rightarrow> bool \<Rightarrow> rat" where
  "float_value l ex isneg =
     (let m = of_nat (digits_value (intpart l @ fracpart l)) / 10 ^ length (fracpart l);
          m' = (if negative l then - m else m)
      in if isneg then m' / 10 ^ digits_value ex else m' * 10 ^ digits_value ex)"

text \<open>
  \<^verbatim>\<open>eval(val)\<close> for a string that the pattern \<open>numbers\<close> accepts. The pattern accepts
  more than Python's numeric literals. With no digit in the mantissa and an exponent,
  the string reads as a name (\<^verbatim>\<open>e5\<close>, \<^verbatim>\<open>e+5\<close>), which is not defined; with no digit at
  all (\<^verbatim>\<open>""\<close>, \<^verbatim>\<open>+\<close>, \<^verbatim>\<open>.\<close>), with an exponent without digits (\<^verbatim>\<open>1e\<close>, \<^verbatim>\<open>e+\<close>),
  or with an integer written with leading zeros (\<^verbatim>\<open>007\<close>), it is a syntax error.
\<close>

definition eval_numbers :: "string \<Rightarrow> error + pyval" where
  "eval_numbers s =
     (case parse_numbers s of
        None \<Rightarrow> Inl SyntaxError
      | Some l \<Rightarrow>
          (case exponent l of
             None \<Rightarrow>
               if point l
               then (if intpart l = [] \<and> fracpart l = [] then Inl SyntaxError
                     else Inr (PFloat (float_value l [] False)))
               else (if intpart l = [] then Inl SyntaxError
                     else if hd (intpart l) = CHR ''0'' \<and> digits_value (intpart l) \<noteq> 0
                     then Inl SyntaxError
                     else Inr (PInt (if negative l then - int (digits_value (intpart l))
                                     else int (digits_value (intpart l)))))
           | Some (signed, isneg, ds) \<Rightarrow>
               if intpart l = [] \<and> fracpart l = []
               then (if point l then Inl SyntaxError
                     else if signed \<and> ds = [] then Inl SyntaxError
                     else Inl NameError)
               else (if ds = [] then Inl SyntaxError
                     else Inr (PFloat (float_value l ds isneg)))))"

text \<open>
  The body of \<^verbatim>\<open>for line in lines\<close> up to the assignment: the values of the variables
  \<^verbatim>\<open>key\<close> and \<^verbatim>\<open>value\<close>, \<open>None\<close> for a variable that is still \<^verbatim>\<open>None\<close>.
\<close>

definition classify_line :: "string \<Rightarrow> error + string option \<times> pyval option" where
  "classify_line line =
     (if \<not> empty_match line
      then (if letters_match line
            then (case re_split 3 False [] (strip line) of
                    [key, val] \<Rightarrow>
                      (let value = (if letters_match val then Some (PStr val) else None)
                       in if numbers_fullmatch val
                          then bind (eval_numbers val) (\<lambda>v. Inr (Some key, Some v))
                          else Inr (Some key, value))
                  | [key, val1, val2] \<Rightarrow>
                      if numbers_fullmatch val1 \<and> numbers_fullmatch val2
                      then bind (eval_numbers val1) (\<lambda>v1.
                           bind (eval_numbers val2) (\<lambda>v2.
                           Inr (Some key, Some (PTuple v1 v2))))
                      else Inl (ValueError (''Min/max values expected for '' @ key))
                  | _ \<Rightarrow> Inr (None, None))
            else Inr (None, None))
      else Inr (None, None))"

text \<open>The assignment at the end of the loop body.\<close>

definition store :: "string option \<times> pyval option \<Rightarrow> pyval dict \<Rightarrow> pyval dict" where
  "store kv content =
     (case kv of
        (Some key, Some v) \<Rightarrow>
          if key \<noteq> [] \<and> \<not> contains ''FILTER'' key \<and> \<not> contains ''SENSITIVITY'' key
          then dict_set content key v
          else content
      | _ \<Rightarrow> content)"

definition line_step :: "string \<Rightarrow> pyval dict \<Rightarrow> error + pyval dict" where
  "line_step line content = bind (classify_line line) (\<lambda>kv. Inr (store kv content))"

text \<open>The loop over the lines that \<^verbatim>\<open>readlines\<close> returned.\<close>

definition dict_from_lines :: "string list \<Rightarrow> error + pyval dict" where
  "dict_from_lines lines = for_each line_step lines []"

text \<open>
  The file system is a map from file names to the lines of the file (each with its
  newline); opening a file that does not exist raises.
\<close>

definition dict_from_file :: "(string \<Rightarrow> string list option) \<Rightarrow> string \<Rightarrow> error + pyval dict" where
  "dict_from_file fs filename =
     (case fs filename of
        None \<Rightarrow> Inl (FileNotFoundError filename)
      | Some lines \<Rightarrow> dict_from_lines lines)"

subsection \<open>Linear models\<close>

text \<open>
  \<^verbatim>\<open>Polynomial1D(1, c0=a, c1=b)\<close> of the modelling library: a polynomial of degree one,
  given by its two coefficients, which have to be numbers.
\<close>

record poly =
  degree :: nat
  c0 :: rat
  c1 :: rat

fun to_num :: "pyval \<Rightarrow> rat option" where
  "to_num (PInt i) = Some (of_int i)"
| "to_num (PFloat r) = Some r"
| "to_num (PStr s) = None"
| "to_num (PTuple a b) = None"

definition Polynomial1D :: "nat \<Rightarrow> pyval \<Rightarrow> pyval \<Rightarrow> error + poly" where
  "Polynomial1D n a b =
     (case to_num a of
        None \<Rightarrow> Inl TypeError
      | Some x \<Rightarrow>
          (case to_num b of
             None \<Rightarrow> Inl TypeError
           | Some y \<Rightarrow> Inr \<lparr>degree = n, c0 = x, c1 = y\<rparr>))"

text \<open>The value of a model at a point.\<close>

definition evaluate :: "poly \<Rightarrow> rat \<Rightarrow> rat" where
  "evaluate p t = c0 p + c1 p * t"

subsection \<open>Python operators on values\<close>

text \<open>\<^verbatim>\<open>v == 0\<close>\<close>

definition eq_zero :: "pyval \<Rightarrow> bool" where
  "eq_zero v = (to_num v = Some 0)"

text \<open>\<^verbatim>\<open>-v\<close>\<close>

fun neg :: "pyval \<Rightarrow> error + pyval" where
  "neg (PInt i) = Inr (PInt (- i))"
| "neg (PFloat r) = Inr (PFloat (- r))"
| "neg (PStr s) = Inl TypeError"
| "neg (PTuple a b) = Inl TypeError"

text \<open>\<^verbatim>\<open>a / b\<close>: true division, whose result is a float.\<close>

definition truediv :: "pyval \<Rightarrow> pyval \<Rightarrow> error + pyval" where
  "truediv a b =
     (case to_num a of
        None \<Rightarrow> Inl TypeError
      | Some x \<Rightarrow>
          (case to_num b of
             None \<Rightarrow> Inl TypeError
           | Some y \<Rightarrow> if y = 0 then Inl ZeroDivisionError else Inr (PFloat (x / y))))"

text \<open>\<^verbatim>\<open>v[i]\<close> for \<open>i\<close> not negative.\<close>

fun getitem :: "pyval \<Rightarrow> nat \<Rightarrow> error + pyval" where
  "getitem (PInt i) n = Inl TypeError"
| "getitem (PFloat r) n = Inl TypeError"
| "getitem (PStr s) n = (if n < length s then Inr (PStr [s ! n]) else Inl IndexError)"
| "getitem (PTuple a b) n = (if n = 0 then Inr a else if n = 1 then Inr b else Inl IndexError)"

text \<open>\<^verbatim>\<open>a, b = v\<close>\<close>

fun unpack2 :: "pyval \<Rightarrow> error + pyval \<times> pyval" where
  "unpack2 (PInt i) = Inl TypeError"
| "unpack2 (PFloat r) = Inl TypeError"
| "unpack2 (PStr s) =
     (case s of
        [a, b] \<Rightarrow> Inr (PStr [a], PStr [b])
      | _ \<Rightarrow> Inl (ValueError ''wrong number of values to unpack''))"
| "unpack2 (PTuple a b) = Inr (a, b)"

text \<open>
  \<^verbatim>\<open>int(s)\<close> for a string: whitespace around the number is ignored, a sign may come
  first, and single underscores may stand between digits.
\<close>

definition py_int :: "string \<Rightarrow> error + int" where
  "py_int s =
     (case take_sign (strip s) of
        (signed, isneg, ds) \<Rightarrow>
          let groups = split (CHR ''_'') ds in
          if list_all (\<lambda>g. g \<noteq> [] \<and> list_all is_digit g) groups
          then Inr (if isneg then - int (digits_value (concat groups))
                    else int (digits_value (concat groups)))
          else Inl (ValueError (''invalid literal for int() with base 10: '' @ s)))"

subsection \<open>The reference-file keywords\<close>

record ref_keywords =
  kw_author :: string
  kw_description :: "string option"
  kw_exposure_type :: string
  kw_instrument_name :: string
  kw_instrument_filter :: "string option"
  kw_instrument_pupil :: "string option"
  kw_instrument_module :: "string option"
  kw_pedigree :: string
  kw_reftype :: string
  kw_telescope :: string
  kw_title :: "string option"
  kw_useafter :: string
  kw_kwargs :: "(string \<times> string) list"

definition common_reference_file_keywords ::
  "string option \<Rightarrow> string option \<Rightarrow> string option \<Rightarrow> string option \<Rightarrow> string \<Rightarrow> string \<Rightarrow>
   string option \<Rightarrow> string option \<Rightarrow> string option \<Rightarrow> (string \<times> string) list \<Rightarrow> error + ref_keywords" where
  "common_reference_file_keywords reftype title description exp_type author useafter
       module_name fname pupil kwargs =
     (case exp_type of
        None \<Rightarrow> Inl (ValueError ''exp_type not set'')
      | Some et \<Rightarrow>
          (case reftype of
             None \<Rightarrow> Inl (ValueError ''Expected reftype value'')
           | Some rt \<Rightarrow>
               Inr \<lparr>kw_author = author, kw_description = description, kw_exposure_type = et,
                    kw_instrument_name = ''NIRCAM'', kw_instrument_filter = fname,
                    kw_instrument_pupil = pupil, kw_instrument_module = module_name,
                    kw_pedigree = ''ground'', kw_reftype = rt, kw_telescope = ''JWST'',
                    kw_title = title, kw_useafter = useafter, kw_kwargs = kwargs\<rparr>))"

subsection \<open>The dispersion models of the orders\<close>

text \<open>The six lists that the loop over the orders fills.\<close>

record models =
  invdispl :: "poly list"
  invdispx :: "poly list"
  invdispy :: "poly list"
  displ :: "poly list"
  dispx :: "poly list"
  dispy :: "poly list"

text \<open>
  The inverse of a pair of coefficients, written three times in the source:
  \<^verbatim>\<open>Polynomial1D(1, c0=0, c1=0)\<close> if the slope is zero, else
  \<^verbatim>\<open>Polynomial1D(1, c0=-a/b, c1=1./b)\<close>.
\<close>

definition inverse_model :: "pyval \<Rightarrow> pyval \<Rightarrow> error + poly" where
  "inverse_model a b =
     (if eq_zero b then Polynomial1D 1 (PInt 0) (PInt 0)
      else bind (neg a) (\<lambda>na.
           bind (truediv na b) (\<lambda>k0.
           bind (truediv (PFloat 1) b) (\<lambda>k1.
           Polynomial1D 1 k0 k1))))"

text \<open>The body of \<^verbatim>\<open>for order in orders\<close>.\<close>

definition order_step :: "pyval dict dict \<Rightarrow> string \<Rightarrow> models \<Rightarrow> error + models" where
  "order_step beamdict order ms =
     bind (dict_get beamdict order) (\<lambda>bd.
     bind (dict_get bd ''DISPL'') (\<lambda>dl.
     bind (getitem dl 0) (\<lambda>l0.
     bind (getitem dl 1) (\<lambda>l1.
     bind (inverse_model l0 l1) (\<lambda>il.
     bind (Polynomial1D 1 l0 l1) (\<lambda>fl.
     bind (dict_get bd ''DISPX'') (\<lambda>dx.
     bind (unpack2 dx) (\<lambda>x.
     bind (Polynomial1D 1 (fst x) (snd x)) (\<lambda>fx.
     bind (inverse_model (fst x) (snd x)) (\<lambda>ix.
     bind (dict_get bd ''DISPY'') (\<lambda>dy.
     bind (unpack2 dy) (\<lambda>y.
     bind (Polynomial1D 1 (fst y) (snd y)) (\<lambda>fy.
     bind (inverse_model (fst y) (snd y)) (\<lambda>iy.
     Inr \<lparr>invdispl = invdispl ms @ [il], invdispx = invdispx ms @ [ix],
          invdispy = invdispy ms @ [iy], displ = displ ms @ [fl],
          dispx = dispx ms @ [fx], dispy = dispy ms @ [fy]\<rparr>))))))))))))))"

text \<open>\<^verbatim>\<open>oo = [int(o) for o in beamdict]\<close>\<close>

definition int_step :: "string \<Rightarrow> int list \<Rightarrow> error + int list" where
  "int_step o_name oo = bind (py_int o_name) (\<lambda>i. Inr (oo @ [i]))"

subsection \<open>The grism reference file\<close>

record grism_model =
  meta :: ref_keywords
  p_exptype :: "string option"
  input_units :: string
  output_units :: string
  ref_displ :: "poly list"
  ref_dispx :: "poly list"
  ref_dispy :: "poly list"
  ref_invdispx :: "poly list"
  ref_invdispy :: "poly list"
  ref_invdispl :: "poly list"
  orders :: "int list"
  history_description :: string
  software_author :: string

text \<open>\<^verbatim>\<open>s[-n]\<close> on a string, for \<open>n\<close> positive.\<close>

definition from_end :: "string \<Rightarrow> nat \<Rightarrow> error + char" where
  "from_end s n = (if 0 < n \<and> n \<le> length s then Inr (s ! (length s - n)) else Inl IndexError)"

text \<open>\<^verbatim>\<open>conffile.split("_")[1]\<close>\<close>

definition filter_from_name :: "string \<Rightarrow> error + string" where
  "filter_from_name conffile =
     (case split (CHR ''_'') conffile of _ # f # _ \<Rightarrow> Inr f | _ \<Rightarrow> Inl IndexError)"

text \<open>\<^verbatim>\<open>conffile.split(".")[0]\<close>\<close>

definition stem :: "string \<Rightarrow> error + string" where
  "stem conffile = (case split (CHR ''.'') conffile of st # _ \<Rightarrow> Inr st | [] \<Rightarrow> Inl IndexError)"

text \<open>
  The filter, the pupil and the module: the argument if it is given, and otherwise a part
  of the name of the configuration file, as in \<^verbatim>\<open>NIRCAM_F444W_modB_R.conf\<close>.
\<close>

definition filter_of :: "string \<Rightarrow> string option \<Rightarrow> error + string" where
  "filter_of conffile filter_arg =
     (case filter_arg of None \<Rightarrow> filter_from_name conffile | Some f \<Rightarrow> Inr f)"

definition pupil_of :: "string \<Rightarrow> string option \<Rightarrow> error + string" where
  "pupil_of conffile pupil_arg =
     (case pupil_arg of
        None \<Rightarrow> bind (stem conffile) (\<lambda>st. bind (from_end st 1) (\<lambda>c. Inr (''GRISM'' @ [c])))
      | Some p \<Rightarrow> Inr p)"

definition module_of :: "string \<Rightarrow> string option \<Rightarrow> error + string" where
  "module_of conffile module_arg =
     (case module_arg of
        None \<Rightarrow> bind (stem conffile) (\<lambda>st. bind (from_end st 3) (\<lambda>c. Inr [c]))
      | Some m \<Rightarrow> Inr m)"

text \<open>
  \<^verbatim>\<open>create_grism_specwcs\<close>. The result is the name and the content of the file that
  \<^verbatim>\<open>ref.to_asdf(outname)\<close> writes, or the exception that ends the call before it. The
  data model, its writer and its validation belong to other packages and are taken to
  accept the content; the time stamp of the history entry is left out.
\<close>

definition create_grism_specwcs ::
  "(string \<Rightarrow> string list option) \<Rightarrow> string \<Rightarrow> string option \<Rightarrow> string option \<Rightarrow> string option \<Rightarrow>
   string \<Rightarrow> string \<Rightarrow> string option \<Rightarrow> error + string \<times> grism_model" where
  "create_grism_specwcs fs conffile filter_arg pupil_arg module_arg author history outname_arg =
     (let outname = (case outname_arg of None \<Rightarrow> ''nircam_wfss_specwcs.asdf'' | Some n \<Rightarrow> n);
          history = (if history = [] then ''Created from '' @ conffile else history)
      in
      bind (filter_of conffile filter_arg) (\<lambda>filter_name.
      bind (pupil_of conffile pupil_arg) (\<lambda>pupil.
      bind (module_of conffile module_arg) (\<lambda>module_name.
      bind (common_reference_file_keywords (Some ''specwcs'') (Some ''NIRCAM Grism Parameters'')
              (Some (pupil @ '' dispersion models'')) (Some ''NRC_WFSS'') author
              ''2014-01-01T00:00:00'' (Some module_name) (Some filter_name) (Some pupil)
              [(''model_type'', ''NIRCAMGrismModel''), (''filename'', outname)]) (\<lambda>ref_kw.
      bind (dict_from_file fs conffile) (\<lambda>conf.
      bind (split_order_info conf) (\<lambda>beamdict.
      bind (for_each (order_step beamdict) (map fst beamdict)
              \<lparr>invdispl = [], invdispx = [], invdispy = [], displ = [], dispx = [],
               dispy = []\<rparr>) (\<lambda>ms.
      bind (for_each int_step (map fst beamdict) []) (\<lambda>oo.
      Inr (outname,
           \<lparr>meta = ref_kw,
            p_exptype =
              (if module_name = ''A'' \<and> pupil = ''GRISMR'' \<and>
                  filter_name \<in> set [''F277W'', ''F322W2'', ''F356W'', ''F444W'']
               then Some ''NRC_WFSS|NRC_TSGRISM'' else None),
            input_units = ''micron'', output_units = ''micron'',
            ref_displ = displ ms, ref_dispx = dispx ms, ref_dispy = dispy ms,
            ref_invdispx = invdispx ms, ref_invdispy = invdispy ms,
            ref_invdispl = invdispl ms, orders = oo,
            history_description = history, software_author = author\<rparr>))))))))))"

subsection \<open>The wavelength ranges of the wide-field mode\<close>

type_synonym range_entry = "int \<times> string \<times> rat \<times> rat"

record wavelengthrange_model =
  wr_meta :: ref_keywords
  wr_p_exptype :: string
  wr_input_units :: string
  wr_output_units :: string
  wavelengthrange :: "range_entry list"
  extract_orders :: "(string \<times> int list) list"
  order :: "int list"
  waverange_selector :: "string list"
  wr_history_description :: string
  wr_software_author :: string

text \<open>The table that \<^verbatim>\<open>create_wfss_wavelengthrange\<close> uses when it is given none.\<close>

definition wfss_default_wavelengthrange :: "range_entry list" where
  "wfss_default_wavelengthrange =
     [(1, ''F250M'', 2500411072 / 1000000000, 4800260833 / 1000000000),
      (1, ''F277W'', 2500411072 / 1000000000, 3807062006 / 1000000000),
      (1, ''F300M'', 2684896869 / 1000000000, 4025318456 / 1000000000),
      (1, ''F322W2'', 25011293930000003 / 10000000000000000, 4215842089 / 1000000000),
      (1, ''F335M'', 301459734 / 100000000, 4260432726 / 1000000000),
      (1, ''F356W'', 3001085025 / 1000000000, 4302320901 / 1000000000),
      (1, ''F360M'', 3178096344 / 1000000000, 400099629 / 100000000),
      (1, ''F410M'', 36267051809999997 / 10000000000000000, 45644598 / 10000000),
      (1, ''F430M'', 404828939 / 100000000, 4511761774 / 1000000000),
      (1, ''F444W'', 3696969216 / 1000000000, 4899565197 / 1000000000),
      (1, ''F460M'', 3103778615 / 1000000000, 4881999188 / 1000000000),
      (1, ''F480M'', 45158154679999996 / 10000000000000000, 4899565197 / 1000000000),
      (2, ''F250M'', 2500411072 / 1000000000, 2667345336 / 1000000000),
      (2, ''F277W'', 2500411072 / 1000000000, 32642254050000004 / 10000000000000000),
      (2, ''F300M'', 26659796289999997 / 10000000000000000, 32997071729999994 / 10000000000000000),
      (2, ''F322W2'', 25011293930000003 / 10000000000000000, 4136119434 / 1000000000),
      (2, ''F335M'', 254572003 / 100000000, 36780519760000003 / 10000000000000000),
      (2, ''F356W'', 2529505253 / 1000000000, 4133416971 / 1000000000),
      (2, ''F360M'', 2557881113 / 1000000000, 483740855 / 100000000),
      (2, ''F410M'', 25186954019999996 / 10000000000000000, 4759037127 / 1000000000),
      (2, ''F430M'', 25362614100000003 / 10000000000000000, 4541488865 / 1000000000),
      (2, ''F444W'', 25011293930000003 / 10000000000000000, 4899565197 / 1000000000),
      (2, ''F460M'', 2575447122 / 1000000000, 4883350419 / 1000000000),
      (2, ''F480M'', 2549773725 / 1000000000, 4899565197 / 1000000000)]"

text \<open>
  \<^verbatim>\<open>create_wfss_wavelengthrange\<close>. \<^verbatim>\<open>sorted(set(...))\<close> is the sorted list of the distinct
  elements. The result is the name and the content of the file written; validation and
  writing belong to another package and are taken to accept the content.
\<close>

definition create_wfss_wavelengthrange ::
  "string \<Rightarrow> string \<Rightarrow> string \<Rightarrow> range_entry list option \<Rightarrow> (string \<times> int list) list option \<Rightarrow>
   error + string \<times> wavelengthrange_model" where
  "create_wfss_wavelengthrange outname history author wavelengthrange_arg extract_orders_arg =
     bind (common_reference_file_keywords (Some ''wavelengthrange'')
             (Some ''NIRCAM WFSS reference file'')
             (Some ''NIRCAM Grism-Filter Wavelength Ranges'') (Some ''NRC_WFSS'') author
             ''2014-01-01T00:00:00'' None None (Some ''ANY'')
             [(''model_type'', ''WavelengthrangeModel''), (''filename'', outname)]) (\<lambda>ref_kw.
     let wr = (case wavelengthrange_arg of None \<Rightarrow> wfss_default_wavelengthrange | Some w \<Rightarrow> w);
         orders_list = sort (remdups (map fst wr));
         filters = sort (remdups (map (\<lambda>x. fst (snd x)) wr));
         eo = (case extract_orders_arg of
                 None \<Rightarrow> map (\<lambda>f. (f, orders_list)) filters
               | Some e \<Rightarrow> e)
     in Inr (outname,
             \<lparr>wr_meta = ref_kw, wr_p_exptype = ''NRC_WFSS'', wr_input_units = ''micron'',
              wr_output_units = ''micron'', wavelengthrange = wr, extract_orders = eo,
              order = orders_list, waverange_selector = filters,
              wr_history_description = history, wr_software_author = author\<rparr>))"

subsection \<open>What a pair of linear models has to satisfy\<close>

text \<open>
  For the coefficients \<open>a\<close> and \<open>b\<close>: the forward model is \<open>t \<mapsto> a + b * t\<close>; the
  inverse model is everywhere zero if \<open>b\<close> is zero, and is \<open>v \<mapsto> - a / b + v / b\<close>
  otherwise, which undoes the forward model.
\<close>

definition linear_pair :: "rat \<Rightarrow> rat \<Rightarrow> poly \<Rightarrow> poly \<Rightarrow> bool" where
  "linear_pair a b f g =
     ((\<forall>t. evaluate f t = a + b * t) \<and>
      (if b = 0 then (\<forall>v. evaluate g v = 0)
       else (\<forall>v. evaluate g v = - a / b + v / b) \<and> (\<forall>t. evaluate g (evaluate f t) = t)))"

section \<open>Properties\<close>

lemmas char_defs = is_letter_def is_digit_def is_space_def upper_def upper_char_def

lemmas split_defs = split_order_info_def prefetch_step_def assign_step_def beam_step_def
  root_step_def member_step_def make_pair_def token_match_def rangekey_match_def beam_of_def
  root_of_def eval_last_def dict_get_def dict_del_def dict_update_def bind_def

subsection \<open>Loops\<close>

lemma for_each_filter:
  assumes "\<And>x s. \<not> P x \<Longrightarrow> f x s = Inr s"
  shows "for_each f xs s = for_each f (filter P xs) s"
  using assms by (induction xs arbitrary: s) (auto split: sum.splits)

lemma for_each_append:
  "for_each f (xs @ ys) s =
     (case for_each f xs s of Inl e \<Rightarrow> Inl e | Inr s' \<Rightarrow> for_each f ys s')"
  by (induction xs arbitrary: s) (auto split: sum.splits)

subsection \<open>The beam splitter\<close>

lemma prefetch_skip: "\<not> token_match key \<Longrightarrow> prefetch_step key beams = Inr beams"
  by (simp add: prefetch_step_def)

lemma assign_skip: "\<not> token_match key \<Longrightarrow> assign_step keydict key rdict = Inr rdict"
  by (simp add: assign_step_def)

text \<open>
  C5. A mapping whose beam-qualified keys are \<^verbatim>\<open>WX_A_0\<close> and \<^verbatim>\<open>WX_A_1\<close>, in either
  order and among any keys that name no beam, with the values \<open>v0\<close> and \<open>v1\<close> (1.0 and
  2.0 in the example): the result has the one beam \<^verbatim>\<open>A\<close>, and its mapping is exactly
  \<^verbatim>\<open>WX\<close> bound to the tuple \<open>(v0, v1)\<close>. So it holds the merged key and none of
  \<^verbatim>\<open>WX_0\<close>, \<^verbatim>\<open>WX_1\<close>, \<^verbatim>\<open>WX_A_0\<close> and \<^verbatim>\<open>WX_A_1\<close>.
\<close>

theorem split_order_info_merges_pair:
  assumes keys: "filter token_match (map fst keydict) = [''WX_A_0'', ''WX_A_1'']
                 \<or> filter token_match (map fst keydict) = [''WX_A_1'', ''WX_A_0'']"
    and v0: "map_of keydict ''WX_A_0'' = Some v0"
    and v1: "map_of keydict ''WX_A_1'' = Some v1"
  shows "split_order_info keydict = Inr [(''A'', [(''WX'', PTuple v0 v1)])]"
proof -
  let ?ks = "filter token_match (map fst keydict)"
  have pre: "for_each prefetch_step (map fst keydict) [] = for_each prefetch_step ?ks []"
    by (rule for_each_filter) (rule prefetch_skip)
  have asg: "for_each (assign_step keydict) (map fst keydict) r
             = for_each (assign_step keydict) ?ks r" for r
    by (rule for_each_filter) (rule assign_skip)
  from keys show ?thesis
  proof
    assume k: "?ks = [''WX_A_0'', ''WX_A_1'']"
    show ?thesis
      unfolding split_order_info_def pre asg k
      using v0 v1 by (simp add: split_defs char_defs)
  next
    assume k: "?ks = [''WX_A_1'', ''WX_A_0'']"
    show ?thesis
      unfolding split_order_info_def pre asg k
      using v0 v1 by (simp add: split_defs char_defs)
  qed
qed

theorem split_order_info_merges_pair_witness:
  "split_order_info [(''WX_A_0'', PFloat 1), (''NAME'', PStr ''x''), (''WX_A_1'', PFloat 2)]
     = Inr [(''A'', [(''WX'', PTuple (PFloat 1) (PFloat 2))])]"
  by (rule split_order_info_merges_pair) (simp_all add: token_match_def char_defs)

text \<open>
  C1. A root with only one of its two keys is not dropped. With \<^verbatim>\<open>WX_A_0\<close> alone the
  variable \<^verbatim>\<open>one\<close> has never been assigned when the tuple \<^verbatim>\<open>(zero, one)\<close> is built, and the
  call ends with an exception. After a complete pair \<^verbatim>\<open>D_A_0\<close>, \<^verbatim>\<open>D_A_1\<close> the variable
  still holds the value of \<^verbatim>\<open>D_A_1\<close>, and the result has a merged key \<^verbatim>\<open>WX\<close> made of the
  value of \<^verbatim>\<open>WX_A_0\<close> and that stale value.
\<close>

theorem lone_range_key_not_dropped:
  "split_order_info [(''WX_A_0'', v)] = Inl (UnboundLocalError ''one'')
   \<and> split_order_info [(''D_A_0'', a), (''D_A_1'', b), (''WX_A_0'', c)]
       = Inr [(''A'', [(''D'', PTuple a b), (''WX'', PTuple c b)])]"
  by (simp add: split_defs char_defs)

text \<open>
  C2. The key \<^verbatim>\<open>WX_A_7\<close> raises nothing: the pattern \<open>rangekey\<close> accepts the digits 0
  and 1 only, so the key never reaches the branch that raises, and it stays in the mapping
  of beam \<^verbatim>\<open>A\<close> as \<^verbatim>\<open>WX_7\<close>.
\<close>

theorem other_digit_not_rejected:
  "split_order_info [(''WX_A_7'', v)] = Inr [(''A'', [(''WX_7'', v)])]"
  by (simp add: split_defs char_defs)

subsection \<open>Reading the configuration file\<close>

lemmas file_defs = classify_line_def store_def line_step_def dict_from_lines_def
  dict_from_file_def letters_match_def empty_match_def strip_def numbers_fullmatch_def
  parse_numbers_def parse_exponent_def take_sign_def eval_numbers_def digits_value_def
  float_value_def bind_def

lemma for_each_invariant:
  assumes "\<And>x s s'. I s \<Longrightarrow> f x s = Inr s' \<Longrightarrow> I s'"
    and "I s" and "for_each f xs s = Inr s'"
  shows "I s'"
  using assms(2,3)
proof (induction xs arbitrary: s)
  case Nil
  then show ?case by simp
next
  case (Cons x xs)
  then show ?case by (auto split: sum.splits dest: assms(1))
qed

lemma keys_dict_set: "set (map fst (dict_set d k v)) = insert k (set (map fst d))"
proof (induction d)
  case Nil
  show ?case by simp
next
  case (Cons kv d)
  show ?case
  proof (cases "fst kv = k")
    case True
    then show ?thesis by (cases kv) auto
  next
    case False
    then have "dict_set (kv # d) k v = kv # dict_set d k v" by (cases kv) auto
    with Cons show ?thesis by (simp add: insert_commute)
  qed
qed

lemma map_of_dict_set_same: "map_of (dict_set d k v) k = Some v"
  by (induction d) auto

lemma store_keys:
  "set (map fst (store kv content)) \<subseteq> set (map fst content) \<union>
     {k. \<not> contains ''FILTER'' k \<and> \<not> contains ''SENSITIVITY'' k}"
proof (cases kv)
  case (Pair ko vo)
  show ?thesis
  proof (cases ko)
    case None
    with Pair show ?thesis by (simp add: store_def)
  next
    case (Some k)
    with Pair show ?thesis
      using keys_dict_set [of content k] by (cases vo) (auto simp: store_def)
  qed
qed

lemma line_step_clean:
  assumes "set (map fst content) \<subseteq> {k. \<not> contains ''FILTER'' k \<and> \<not> contains ''SENSITIVITY'' k}"
    and "line_step line content = Inr content'"
  shows "set (map fst content') \<subseteq> {k. \<not> contains ''FILTER'' k \<and> \<not> contains ''SENSITIVITY'' k}"
proof -
  from assms(2) obtain kv where "content' = store kv content"
    by (auto simp: line_step_def bind_def split: sum.splits)
  with store_keys [of kv content] assms(1) show ?thesis by blast
qed

text \<open>
  C7. In a mapping that \<^verbatim>\<open>dict_from_file\<close> returns, no key contains \<^verbatim>\<open>FILTER\<close> or
  \<^verbatim>\<open>SENSITIVITY\<close>: whatever the lines of the file say about such a key, and whether
  their value tokens are valid or not, the key is absent.
\<close>

theorem filter_sensitivity_keys_absent:
  assumes "dict_from_file fs filename = Inr content"
    and "contains ''FILTER'' key \<or> contains ''SENSITIVITY'' key"
  shows "map_of content key = None"
proof -
  let ?I = "\<lambda>c :: pyval dict. set (map fst c) \<subseteq> {k. \<not> contains ''FILTER'' k \<and> \<not> contains ''SENSITIVITY'' k}"
  from assms(1) obtain lines where "for_each line_step lines [] = Inr content"
    by (auto simp: dict_from_file_def dict_from_lines_def split: option.splits)
  moreover have "?I []" by simp
  ultimately have "?I content"
    using for_each_invariant [where I = ?I and f = line_step and s = "[]"] line_step_clean
    by blast
  with assms(2) have "key \<notin> set (map fst content)"
    by auto
  then show ?thesis
    by (simp add: map_of_eq_None_iff)
qed

theorem filter_sensitivity_keys_absent_witness:
  "dict_from_file (\<lambda>n. Some [''KEY 3.5\<newline>'', ''FILTER_A abc\<newline>'', ''SENSITIVITY_A 1 2\<newline>'']) ''a.conf''
     = Inr [(''KEY'', PFloat (7 / 2))]
   \<and> map_of [(''KEY'', PFloat (7 / 2))] ''FILTER_A'' = None"
proof -
  have h: "dict_from_file (\<lambda>n. Some [''KEY 3.5\<newline>'', ''FILTER_A abc\<newline>'', ''SENSITIVITY_A 1 2\<newline>'']) ''a.conf''
     = Inr [(''KEY'', PFloat (7 / 2))]"
    by (simp add: file_defs char_defs)
  have c: "contains ''FILTER'' ''FILTER_A'' \<or> contains ''SENSITIVITY'' ''FILTER_A''"
    by simp
  from filter_sensitivity_keys_absent [OF h c] h show ?thesis by simp
qed


lemma classify_long:
  assumes "letters_match line" and "4 \<le> length (re_split 3 False [] (strip line))"
  shows "classify_line line = Inr (None, None)"
proof -
  from assms(2) obtain a b c d rest where "re_split 3 False [] (strip line) = a # b # c # d # rest"
    by (auto simp: numeral_eq_Suc Suc_le_length_iff)
  then show ?thesis
    by (simp add: classify_line_def)
qed

text \<open>
  C10. A line that starts with a letter and that the split (at most three splits) cuts
  into four pieces: the loop body leaves the mapping as it is and raises nothing, and
  the file gives the same result with the line as without it.
\<close>

theorem long_line_ignored:
  assumes "letters_match line" and "4 \<le> length (re_split 3 False [] (strip line))"
  shows "line_step line content = Inr content
         \<and> dict_from_lines (pre @ line # post) = dict_from_lines (pre @ post)"
proof -
  have step: "line_step line c = Inr c" for c
    using classify_long [OF assms] by (simp add: line_step_def bind_def store_def)
  then show ?thesis
    by (simp add: dict_from_lines_def for_each_append split: sum.splits)
qed

theorem long_line_ignored_witness:
  "dict_from_lines [''A 1\<newline>'', ''Q a b c d\<newline>'', ''B 2\<newline>''] = dict_from_lines [''A 1\<newline>'', ''B 2\<newline>'']
   \<and> dict_from_lines [''A 1\<newline>'', ''B 2\<newline>''] = Inr [(''A'', PInt 1), (''B'', PInt 2)]"
proof -
  have l: "letters_match ''Q a b c d\<newline>''" by (simp add: letters_match_def char_defs)
  have n: "4 \<le> length (re_split 3 False [] (strip ''Q a b c d\<newline>''))"
    by (simp add: strip_def char_defs)
  have e: "dict_from_lines [''A 1\<newline>'', ''B 2\<newline>''] = Inr [(''A'', PInt 1), (''B'', PInt 2)]"
    by (simp add: file_defs char_defs)
  from long_line_ignored [OF l n, of "[]" "[''A 1\<newline>'']" "[''B 2\<newline>'']"] e show ?thesis by simp
qed


lemma letter_not_separator: "is_letter c \<Longrightarrow> \<not> is_space c \<and> c \<noteq> CHR '',''"
  by (auto simp: is_letter_def is_space_def Let_def)

lemma strip_Cons:
  assumes "\<not> is_space c"
  shows "\<exists>cs'. strip (c # cs) = c # cs'"
proof -
  have "dropWhile is_space (rev cs @ [c]) = dropWhile is_space (rev cs) @ [c]
        \<or> dropWhile is_space (rev cs @ [c]) = [c]"
    using assms by (simp add: dropWhile_append)
  moreover have "\<exists>cs'. dropWhile is_space (rev cs) = rev cs'"
    by (metis rev_rev_ident)
  ultimately show ?thesis
    using assms by (auto simp: strip_def)
qed

lemma re_split_first:
  "acc \<noteq> [] \<Longrightarrow> re_split n pd acc s = k # rest \<Longrightarrow> k \<noteq> []"
  by (induction n pd acc s rule: re_split.induct) (auto split: if_splits)

lemma first_token_nonempty:
  assumes "letters_match line" and "re_split 3 False [] (strip line) = key # rest"
  shows "key \<noteq> []"
proof -
  from assms(1) obtain c cs where line: "line = c # cs" and c: "is_letter c"
    by (auto simp: letters_match_def split: list.splits)
  from letter_not_separator [OF c] strip_Cons obtain cs' where s: "strip line = c # cs'"
    unfolding line by blast
  from assms(2) have "re_split 3 (is_digit c) [c] cs' = key # rest"
    using letter_not_separator [OF c] by (simp add: s)
  then show ?thesis
    by (rule re_split_first [rotated]) simp
qed

lemma letters_not_empty: "letters_match line \<Longrightarrow> \<not> empty_match line"
  by (auto simp: letters_match_def empty_match_def split: list.splits dest: letter_not_separator)

lemma eval_numbers_fullmatch: "eval_numbers s = Inr v \<Longrightarrow> numbers_fullmatch s"
  by (auto simp: eval_numbers_def numbers_fullmatch_def split: option.splits)

text \<open>
  C6, as amended. A line that starts with a letter and splits into the three tokens
  \<open>key\<close>, \<open>val1\<close> and \<open>val2\<close>, read after lines \<open>pre\<close> that gave the mapping
  \<open>content\<close>. If one of the two value tokens fails the pattern \<open>numbers\<close>, the call
  ends with \<^verbatim>\<open>ValueError("Min/max values expected for <key>")\<close>. If both evaluate to
  numbers and the key contains neither \<^verbatim>\<open>FILTER\<close> nor \<^verbatim>\<open>SENSITIVITY\<close>, the key is bound
  to the tuple of the two numbers.
\<close>

theorem minmax_line:
  assumes "letters_match line"
    and "re_split 3 False [] (strip line) = [key, val1, val2]"
    and "dict_from_lines pre = Inr content"
  shows "(\<not> numbers_fullmatch val1 \<or> \<not> numbers_fullmatch val2 \<longrightarrow>
            dict_from_lines (pre @ line # post)
              = Inl (ValueError (''Min/max values expected for '' @ key)))
       \<and> (eval_numbers val1 = Inr a \<and> eval_numbers val2 = Inr b
            \<and> \<not> contains ''FILTER'' key \<and> \<not> contains ''SENSITIVITY'' key \<longrightarrow>
            dict_from_lines (pre @ [line]) = Inr (dict_set content key (PTuple a b))
            \<and> map_of (dict_set content key (PTuple a b)) key = Some (PTuple a b))"
proof -
  note ne = letters_not_empty [OF assms(1)]
  have key: "key \<noteq> []"
    using first_token_nonempty [OF assms(1,2)] .
  have bad: "line_step line content = Inl (ValueError (''Min/max values expected for '' @ key))"
    if "\<not> numbers_fullmatch val1 \<or> \<not> numbers_fullmatch val2"
    using that assms(1,2) ne by (auto simp: line_step_def classify_line_def bind_def)
  have good: "line_step line content = Inr (dict_set content key (PTuple a b))"
    if "eval_numbers val1 = Inr a" "eval_numbers val2 = Inr b"
       "\<not> contains ''FILTER'' key" "\<not> contains ''SENSITIVITY'' key"
    using that assms(1,2) ne key eval_numbers_fullmatch [OF that(1)] eval_numbers_fullmatch [OF that(2)]
    by (simp add: line_step_def classify_line_def bind_def store_def)
  show ?thesis
    using bad good assms(3)
    by (auto simp: dict_from_lines_def for_each_append map_of_dict_set_same)
qed

theorem minmax_line_witness:
  "dict_from_lines [''A 1\<newline>'', ''R 1 x\<newline>'', ''B 2\<newline>'']
     = Inl (ValueError ''Min/max values expected for R'')
   \<and> dict_from_lines [''A 1\<newline>'', ''R 1.5 2e1\<newline>'']
     = Inr [(''A'', PInt 1), (''R'', PTuple (PFloat (3 / 2)) (PFloat 20))]"
proof -
  have pre: "dict_from_lines [''A 1\<newline>''] = Inr [(''A'', PInt 1)]"
    by (simp add: file_defs char_defs)
  have l1: "letters_match ''R 1 x\<newline>''" and l2: "letters_match ''R 1.5 2e1\<newline>''"
    by (simp_all add: letters_match_def char_defs)
  have s1: "re_split 3 False [] (strip ''R 1 x\<newline>'') = [''R'', ''1'', ''x'']"
    by (simp add: strip_def char_defs)
  have s2: "re_split 3 False [] (strip ''R 1.5 2e1\<newline>'') = [''R'', ''1.5'', ''2e1'']"
    by (simp add: strip_def char_defs)
  have n: "\<not> numbers_fullmatch ''x''"
    by (simp add: file_defs char_defs)
  have e: "eval_numbers ''1.5'' = Inr (PFloat (3 / 2))" "eval_numbers ''2e1'' = Inr (PFloat 20)"
    by (simp_all add: file_defs char_defs)
  have c: "\<not> contains ''FILTER'' ''R''" "\<not> contains ''SENSITIVITY'' ''R''"
    by simp_all
  from minmax_line [OF l1 s1 pre, where post = "[''B 2\<newline>'']"] n
  have "dict_from_lines [''A 1\<newline>'', ''R 1 x\<newline>'', ''B 2\<newline>'']
     = Inl (ValueError ''Min/max values expected for R'')"
    by simp
  moreover from minmax_line [OF l2 s2 pre, where a = "PFloat (3 / 2)" and b = "PFloat 20"] e c
  have "dict_from_lines [''A 1\<newline>'', ''R 1.5 2e1\<newline>'']
     = Inr [(''A'', PInt 1), (''R'', PTuple (PFloat (3 / 2)) (PFloat 20))]"
    by simp
  ultimately show ?thesis by simp
qed

text \<open>
  C6 as stated fails: the line \<^verbatim>\<open>FILTER_A 1 2\<close> starts with a letter and has two numeric
  value tokens, and its key is not bound.
\<close>

theorem minmax_line_counterexample:
  "letters_match ''FILTER_A 1 2\<newline>''
   \<and> re_split 3 False [] (strip ''FILTER_A 1 2\<newline>'') = [''FILTER_A'', ''1'', ''2'']
   \<and> numbers_fullmatch ''1'' \<and> numbers_fullmatch ''2''
   \<and> dict_from_lines [''FILTER_A 1 2\<newline>''] = Inr []"
  by (simp add: file_defs char_defs)


end
